theory Spec2Isabelle
  imports Complex_Main "HOL-Library.Char_ord" "HOL-Library.List_Lexorder" "HOL-Library.Multiset"
begin

section \<open>System monitor dashboard (app.py): data model\<close>

text \<open>
  The dashboard reads two SQLite tables, \<^verbatim>\<open>system_log\<close> and \<^verbatim>\<open>alerts_log\<close>.
  A row of each is a record. The REAL columns hold finite IEEE doubles; every such value
  is a rational number, comparisons on them are exact, and so they are modelled as
  \<^typ>\<open>real\<close>. Columns are taken to be non-NULL, as the collector writes them.
\<close>

record log_record =
  log_id :: int
  timestamp :: string
  cpu :: real
  memory :: real
  disk :: real
  ping_status :: string
  ping_ms :: real

record alert_record =
  alert_id :: int
  alert_timestamp :: string
  alert_type :: string
  message :: string

text \<open>
  The store is the file \<^verbatim>\<open>log.db\<close>. \<^verbatim>\<open>sqlite3.connect\<close> either fails
  (\<open>None\<close>) or yields a database in which each of the two tables is present with its rows or
  absent (a file that did not exist is created empty, with no table).
\<close>

record database =
  system_log :: "log_record list option"
  alerts_log :: "alert_record list option"

type_synonym store = "database option"

datatype failure = UnableToOpen | NoSuchTable string

datatype error =
    OperationalError failure   \<comment> \<open>\<^verbatim>\<open>sqlite3.OperationalError\<close>, from connect or cursor.execute\<close>
  | DatabaseError failure      \<comment> \<open>\<^verbatim>\<open>pandas.errors.DatabaseError\<close>, from read_sql_query\<close>
  | ValueError string          \<comment> \<open>\<^verbatim>\<open>pd.to_datetime\<close> on a string it cannot parse\<close>

definition connect :: "store \<Rightarrow> error + database" where
  "connect st = (case st of None \<Rightarrow> Inl (OperationalError UnableToOpen) | Some db \<Rightarrow> Inr db)"

section \<open>Formatting: \<^verbatim>\<open>str(n)\<close>, \<^verbatim>\<open>f"{x:.1f}"\<close>, \<^verbatim>\<open>strftime\<close>\<close>

definition digit_char :: "nat \<Rightarrow> char" where
  "digit_char n = ''0123456789'' ! n"

fun str_nat :: "nat \<Rightarrow> string" where
  "str_nat n = (if n < 10 then [digit_char n] else str_nat (n div 10) @ [digit_char (n mod 10)])"

declare str_nat.simps [simp del]

definition zfill :: "nat \<Rightarrow> string \<Rightarrow> string" where
  "zfill w s = replicate (w - length s) CHR ''0'' @ s"

text \<open>
  Python formats a double with \<^verbatim>\<open>.pf\<close> by rounding its exact value to \<open>p\<close> decimals,
  ties to even, and prints a minus sign for every negative value, also one that rounds to
  zero (\<^verbatim>\<open>f"{-0.04:.1f}"\<close> is \<^verbatim>\<open>-0.0\<close>).
\<close>

definition round_half_even :: "real \<Rightarrow> int" where
  "round_half_even y =
     (let f = \<lfloor>y\<rfloor>; d = y - of_int f
      in if d < 1/2 then f else if 1/2 < d then f + 1 else if even f then f else f + 1)"

definition format_f :: "nat \<Rightarrow> real \<Rightarrow> string" where
  "format_f p x =
     (let q = nat (round_half_even (\<bar>x\<bar> * 10 ^ p))
      in (if x < 0 then ''-'' else '''') @ str_nat (q div 10 ^ p) @
         (if p = 0 then '''' else ''.'' @ zfill p (str_nat (q mod 10 ^ p))))"

text \<open>
  Arithmetic on doubles. An IEEE 754 binary64 operation returns the exact result rounded to
  the nearest double, ties to even: a double in the binade \<open>[2^e, 2^(e+1))\<close> is a multiple
  of \<open>2^(e-52)\<close>. Overflow and subnormal results are outside the model; the quotients and
  products formed by the source are far from both.
\<close>

function exp_up :: "real \<Rightarrow> nat" where
  "exp_up x = (if 2 \<le> x then Suc (exp_up (x / 2)) else 0)"
  by pat_completeness auto
termination
proof (relation "measure (\<lambda>x. nat \<lfloor>x\<rfloor>)")
  show "wf (measure (\<lambda>x :: real. nat \<lfloor>x\<rfloor>))" by simp
next
  fix x :: real
  assume "2 \<le> x"
  then have "x / 2 \<le> x - 1" by simp
  then have "\<lfloor>x / 2\<rfloor> \<le> \<lfloor>x - 1\<rfloor>" by (rule floor_mono)
  moreover have "1 \<le> \<lfloor>x\<rfloor>" using \<open>2 \<le> x\<close> by linarith
  ultimately show "(x / 2, x) \<in> measure (\<lambda>x. nat \<lfloor>x\<rfloor>)" by simp
qed

function exp_down :: "real \<Rightarrow> nat" where
  "exp_down x = (if 0 < x \<and> x < 1 then Suc (exp_down (2 * x)) else 0)"
  by pat_completeness auto
termination
proof (relation "measure (\<lambda>x. nat \<lceil>1 / x\<rceil>)")
  show "wf (measure (\<lambda>x :: real. nat \<lceil>1 / x\<rceil>))" by simp
next
  fix x :: real
  assume a: "0 < x \<and> x < 1"
  have half: "nat \<lceil>y / 2\<rceil> < nat \<lceil>y\<rceil>" if "1 < y" for y :: real
  proof -
    have "y \<le> real_of_int \<lceil>y\<rceil>" by linarith
    moreover from that have "2 \<le> \<lceil>y\<rceil>" by linarith
    then have "(2 :: real) \<le> real_of_int \<lceil>y\<rceil>" by linarith
    ultimately have "y / 2 \<le> real_of_int \<lceil>y\<rceil> - 1" by linarith
    then have "y / 2 \<le> real_of_int (\<lceil>y\<rceil> - 1)" by simp
    then have "\<lceil>y / 2\<rceil> \<le> \<lceil>y\<rceil> - 1" by (simp only: ceiling_le_iff)
    moreover from that have "0 < \<lceil>y\<rceil>" by linarith
    ultimately show ?thesis by linarith
  qed
  from a have y: "1 < 1 / x" by simp
  have e: "1 / (2 * x) = 1 / x / 2" by simp
  have "nat \<lceil>1 / (2 * x)\<rceil> < nat \<lceil>1 / x\<rceil>"
    unfolding e using y by (rule half)
  then show "(2 * x, x) \<in> measure (\<lambda>x. nat \<lceil>1 / x\<rceil>)"
    by (simp only: in_measure)
qed

declare exp_up.simps [simp del] exp_down.simps [simp del]

text \<open>The exponent \<open>e\<close> with \<open>2^e \<le> a < 2^(e+1)\<close>, for positive \<open>a\<close>.\<close>

definition binade :: "real \<Rightarrow> int" where
  "binade a = (if 1 \<le> a then int (exp_up a) else - int (exp_down a))"

definition ulp :: "int \<Rightarrow> real" where
  "ulp e = (if 52 \<le> e then 2 ^ nat (e - 52) else 1 / 2 ^ nat (52 - e))"

definition round_double :: "real \<Rightarrow> real" where
  "round_double x =
     (if x = 0 then 0
      else let u = ulp (binade \<bar>x\<bar>)
           in sgn x * real_of_int (round_half_even (\<bar>x\<bar> / u)) * u)"

definition fdiv :: "real \<Rightarrow> real \<Rightarrow> real" where
  "fdiv a b = round_double (a / b)"

definition fmul :: "real \<Rightarrow> real \<Rightarrow> real" where
  "fmul a b = round_double (a * b)"

record date =
  year :: nat
  month :: nat
  day :: nat

text \<open>\<^verbatim>\<open>d.strftime('%Y-%m-%d')\<close>, zero-padded to widths 4, 2 and 2.\<close>

definition strftime_ymd :: "date \<Rightarrow> string" where
  "strftime_ymd d =
     zfill 4 (str_nat (year d)) @ ''-'' @ zfill 2 (str_nat (month d)) @ ''-'' @
     zfill 2 (str_nat (day d))"

section \<open>Store accessor: \<^verbatim>\<open>get_system_logs\<close>\<close>

text \<open>
  Each entry of the source's \<^verbatim>\<open>conditions\<close> list is kept together with the parameters
  bound to its placeholders: \<^verbatim>\<open>ping_status = ?\<close>, \<^verbatim>\<open>DATE(timestamp) BETWEEN ? AND ?\<close>
  and \<^verbatim>\<open>cpu >= ?\<close>.
\<close>

datatype condition = PingStatusEq string | DateBetween string string | CpuGe real

text \<open>
  SQL's three-valued logic: a condition is true, false or NULL (\<open>None\<close>). SQLite's
  \<^verbatim>\<open>DATE\<close> function is a parameter \<open>DATE\<close> of the model; it yields NULL on a string
  that is not a time value. TEXT values compare bytewise, which is the lexicographic
  order on \<^typ>\<open>string\<close>.
\<close>

fun sql_and :: "bool option \<Rightarrow> bool option \<Rightarrow> bool option" where
  "sql_and (Some False) _ = Some False"
| "sql_and _ (Some False) = Some False"
| "sql_and (Some True) (Some True) = Some True"
| "sql_and _ _ = None"

fun eval_condition :: "(string \<Rightarrow> string option) \<Rightarrow> log_record \<Rightarrow> condition \<Rightarrow> bool option" where
  "eval_condition DATE r (PingStatusEq s) = Some (ping_status r = s)"
| "eval_condition DATE r (DateBetween lo hi) =
     (case DATE (timestamp r) of None \<Rightarrow> None | Some d \<Rightarrow> Some (lo \<le> d \<and> d \<le> hi))"
| "eval_condition DATE r (CpuGe t) = Some (t \<le> cpu r)"

text \<open>\<^verbatim>\<open>" AND ".join(conditions) if conditions else "1=1"\<close>\<close>

definition where_clause :: "(string \<Rightarrow> string option) \<Rightarrow> condition list \<Rightarrow> log_record \<Rightarrow> bool option" where
  "where_clause DATE conditions r =
     (case conditions of
        [] \<Rightarrow> Some True
      | c # cs \<Rightarrow> foldl sql_and (eval_condition DATE r c) (map (eval_condition DATE r) cs))"

text \<open>
  \<^verbatim>\<open>SELECT * FROM system_log WHERE ... ORDER BY id DESC\<close>: the rows on which the clause is
  true, by descending id. (The order among rows of equal id is not fixed by SQL; \<open>id\<close> is
  the primary key.)
\<close>

definition select_system_log :: "(string \<Rightarrow> string option) \<Rightarrow> condition list \<Rightarrow> log_record list \<Rightarrow> log_record list" where
  "select_system_log DATE conditions rows =
     rev (sort_key log_id (filter (\<lambda>r. where_clause DATE conditions r = Some True) rows))"

definition get_system_logs ::
  "(string \<Rightarrow> string option) \<Rightarrow> store \<Rightarrow> string option \<Rightarrow> (date \<times> date) option \<Rightarrow> real option
     \<Rightarrow> error + log_record list" where
  "get_system_logs DATE st ping_filter date_filter cpu_threshold =
     (case connect st of
        Inl e \<Rightarrow> Inl e
      | Inr db \<Rightarrow>
          let conditions = [];
              conditions =
                (case ping_filter of
                   Some s \<Rightarrow> if s \<noteq> [] \<and> s \<noteq> ''All'' then conditions @ [PingStatusEq s] else conditions
                 | None \<Rightarrow> conditions);
              conditions =
                (case date_filter of
                   Some (start_date, end_date) \<Rightarrow>
                     conditions @ [DateBetween (strftime_ymd start_date) (strftime_ymd end_date)]
                 | None \<Rightarrow> conditions);
              conditions =
                (case cpu_threshold of
                   Some t \<Rightarrow> conditions @ [CpuGe t]
                 | None \<Rightarrow> conditions)
          in (case system_log db of
                None \<Rightarrow> Inl (DatabaseError (NoSuchTable ''system_log''))
              | Some rows \<Rightarrow> Inr (select_system_log DATE conditions rows)))"

text \<open>
  The filter of the specification, in its words: a row passes when it satisfies every
  restriction that is present. A ping restriction is present when \<open>ping_filter\<close> is a
  non-empty string other than \<^verbatim>\<open>All\<close>.
\<close>

definition ping_restriction :: "string option \<Rightarrow> string option" where
  "ping_restriction ping_filter =
     (case ping_filter of
        None \<Rightarrow> None
      | Some s \<Rightarrow> if s = [] \<or> s = ''All'' then None else Some s)"

definition spec_ping_ok :: "string option \<Rightarrow> log_record \<Rightarrow> bool" where
  "spec_ping_ok ping_filter r =
     (case ping_restriction ping_filter of None \<Rightarrow> True | Some s \<Rightarrow> ping_status r = s)"

definition spec_date_ok :: "(string \<Rightarrow> string option) \<Rightarrow> (date \<times> date) option \<Rightarrow> log_record \<Rightarrow> bool" where
  "spec_date_ok DATE date_filter r =
     (case date_filter of
        None \<Rightarrow> True
      | Some (start_date, end_date) \<Rightarrow>
          (case DATE (timestamp r) of
             None \<Rightarrow> False
           | Some d \<Rightarrow> strftime_ymd start_date \<le> d \<and> d \<le> strftime_ymd end_date))"

definition spec_cpu_ok :: "real option \<Rightarrow> log_record \<Rightarrow> bool" where
  "spec_cpu_ok cpu_threshold r = (case cpu_threshold of None \<Rightarrow> True | Some t \<Rightarrow> t \<le> cpu r)"

section \<open>Store accessor: \<^verbatim>\<open>get_alerts_log\<close>\<close>

text \<open>\<^verbatim>\<open>SELECT * FROM alerts_log ORDER BY id DESC LIMIT 50\<close>\<close>

definition get_alerts_log :: "store \<Rightarrow> error + alert_record list" where
  "get_alerts_log st =
     (case connect st of
        Inl e \<Rightarrow> Inl e
      | Inr db \<Rightarrow>
          (case alerts_log db of
             None \<Rightarrow> Inl (DatabaseError (NoSuchTable ''alerts_log''))
           | Some rows \<Rightarrow> Inr (take 50 (rev (sort_key alert_id rows)))))"

section \<open>Statistics aggregator: \<^verbatim>\<open>get_statistics\<close>\<close>

record statistics =
  log_count :: nat
  alert_count :: nat
  threshold_violations :: nat
  latest_cpu :: real
  latest_memory :: real
  latest_disk :: real
  latest_ping_status :: string
  latest_ping_ms :: real

text \<open>
  Four statements on one cursor, in the source's order; a statement on a missing table
  raises \<^verbatim>\<open>sqlite3.OperationalError\<close>. \<open>latest\<close> is \<^verbatim>\<open>cursor.fetchone()\<close> after
  \<^verbatim>\<open>ORDER BY id DESC LIMIT 1\<close>: \<open>None\<close> on an empty table.
\<close>

definition violates_threshold :: "log_record \<Rightarrow> bool" where
  "violates_threshold r \<longleftrightarrow> 80 < cpu r \<or> 85 < memory r \<or> 90 < disk r"

definition get_statistics :: "store \<Rightarrow> error + statistics" where
  "get_statistics st =
     (case connect st of
        Inl e \<Rightarrow> Inl e
      | Inr db \<Rightarrow>
          (case system_log db of
             None \<Rightarrow> Inl (OperationalError (NoSuchTable ''system_log''))
           | Some logs \<Rightarrow>
               (case alerts_log db of
                  None \<Rightarrow> Inl (OperationalError (NoSuchTable ''alerts_log''))
                | Some alerts \<Rightarrow>
                    let latest = (case rev (sort_key log_id logs) of [] \<Rightarrow> None | r # _ \<Rightarrow> Some r)
                    in Inr \<lparr>log_count = length logs,
                            alert_count = length alerts,
                            threshold_violations = length (filter violates_threshold logs),
                            latest_cpu = (case latest of Some r \<Rightarrow> cpu r | None \<Rightarrow> 0),
                            latest_memory = (case latest of Some r \<Rightarrow> memory r | None \<Rightarrow> 0),
                            latest_disk = (case latest of Some r \<Rightarrow> disk r | None \<Rightarrow> 0),
                            latest_ping_status =
                              (case latest of Some r \<Rightarrow> ping_status r | None \<Rightarrow> ''N/A''),
                            latest_ping_ms = (case latest of Some r \<Rightarrow> ping_ms r | None \<Rightarrow> 0)\<rparr>)))"

section \<open>Query cache\<close>

text \<open>
  Modelled from the spec: the query cache behind the decorator \<^verbatim>\<open>@st.cache_data(ttl=10)\<close>
  and behind \<^verbatim>\<open>st.cache_data.clear()\<close>, whose implementation is not in the source. The
  specification's contract: \<^verbatim>\<open>get_or_compute(key, ttl_seconds, compute_fn)\<close> returns the
  value stored for \<open>key\<close> if it was computed within the last \<open>ttl_seconds\<close>; otherwise it
  invokes \<open>compute_fn\<close>, stores the result with the current time and returns it;
  \<^verbatim>\<open>invalidate_all()\<close> drops every entry. The clock is the argument \<open>now\<close>, in seconds.
  The third component of the result tells whether \<open>compute_fn\<close> was invoked. A
  \<open>compute_fn\<close> that fails passes its failure on and nothing is stored.
\<close>

type_synonym ('k, 'v) cache = "'k \<rightharpoonup> ('v \<times> real)"

definition get_or_compute ::
  "('k, 'v) cache \<Rightarrow> real \<Rightarrow> 'k \<Rightarrow> real \<Rightarrow> (unit \<Rightarrow> error + 'v) \<Rightarrow> (error + 'v) \<times> ('k, 'v) cache \<times> bool" where
  "get_or_compute c now key ttl_seconds compute_fn =
     (let fresh = (case c key of
                     None \<Rightarrow> None
                   | Some (v, t) \<Rightarrow> if now - t < ttl_seconds then Some v else None)
      in case fresh of
           Some v \<Rightarrow> (Inr v, c, False)
         | None \<Rightarrow>
             (case compute_fn () of
                Inl e \<Rightarrow> (Inl e, c, True)
              | Inr v \<Rightarrow> (Inr v, c(key \<mapsto> (v, now)), True)))"

definition invalidate_all :: "('k, 'v) cache \<Rightarrow> ('k, 'v) cache" where
  "invalidate_all c = Map.empty"

text \<open>The decorated accessor of the source: \<^verbatim>\<open>ttl=10\<close>, keyed by the call's arguments.\<close>

definition cache_ttl :: real where
  "cache_ttl = 10"

definition cached_get_system_logs ::
  "(string option \<times> (date \<times> date) option \<times> real option, log_record list) cache \<Rightarrow> real
     \<Rightarrow> (string \<Rightarrow> string option) \<Rightarrow> store \<Rightarrow> string option \<Rightarrow> (date \<times> date) option \<Rightarrow> real option
     \<Rightarrow> (error + log_record list)
         \<times> (string option \<times> (date \<times> date) option \<times> real option, log_record list) cache \<times> bool" where
  "cached_get_system_logs c now DATE st ping_filter date_filter cpu_threshold =
     get_or_compute c now (ping_filter, date_filter, cpu_threshold) cache_ttl
       (\<lambda>_. get_system_logs DATE st ping_filter date_filter cpu_threshold)"

section \<open>View assembler: \<^verbatim>\<open>dashboard_page\<close>\<close>

text \<open>
  A page is the list of the Streamlit elements the render emits, in order. Calls that only
  lay the page out (titles, headers, rules, columns, captions, the expander) are left out;
  every call that carries data or a message is an element. The type \<open>'t\<close> is that of
  the values \<^verbatim>\<open>pd.to_datetime\<close> yields.
\<close>

record display_row =
  d_id :: int
  d_timestamp :: string
  d_cpu :: string
  d_memory :: string
  d_disk :: string
  d_ping_status :: string
  d_ping_ms :: string

datatype 't element =
    Metric string string "string option"   \<comment> \<open>\<^verbatim>\<open>st.metric(label, value, delta)\<close>\<close>
  | Success string
  | Warning string
  | Info string
  | Error error                            \<comment> \<open>\<^verbatim>\<open>st.error(f"Error loading data: {e}")\<close>\<close>
  | LogTable "display_row list"            \<comment> \<open>\<^verbatim>\<open>st.dataframe(display_df)\<close>\<close>
  | ResourceChart "('t \<times> real \<times> real \<times> real) list"   \<comment> \<open>\<^verbatim>\<open>st.line_chart(chart_data)\<close>\<close>
  | PingChart "('t \<times> real) list"          \<comment> \<open>\<^verbatim>\<open>st.line_chart(ping_chart)\<close>\<close>
  | AvgTable "(string \<times> string \<times> string \<times> string) list"   \<comment> \<open>\<^verbatim>\<open>st.dataframe(avg_stats)\<close>\<close>
  | PingSummary "(string \<times> nat \<times> string) list"            \<comment> \<open>\<^verbatim>\<open>st.dataframe(ping_summary)\<close>\<close>

text \<open>The values of the filter widgets.\<close>

record inputs =
  ping_filter :: string       \<comment> \<open>selectbox: All, UP, DOWN\<close>
  cpu_threshold :: int        \<comment> \<open>slider 0..100, step 5\<close>
  use_date_filter :: bool
  num_records :: nat          \<comment> \<open>slider 5..100\<close>
  start_date :: date
  end_date :: date

text \<open>The emoji of the source, as their UTF-8 bytes.\<close>

definition red_circle :: string where
  "red_circle = [CHR 0xF0, CHR 0x9F, CHR 0x94, CHR 0xB4]"

definition orange_circle :: string where
  "orange_circle = [CHR 0xF0, CHR 0x9F, CHR 0x9F, CHR 0xA0]"

definition yellow_circle :: string where
  "yellow_circle = [CHR 0xF0, CHR 0x9F, CHR 0x9F, CHR 0xA1]"

definition blue_circle :: string where
  "blue_circle = [CHR 0xF0, CHR 0x9F, CHR 0x94, CHR 0xB5]"

definition white_circle :: string where
  "white_circle = [CHR 0xE2, CHR 0x9A, CHR 0xAA]"

definition green_circle :: string where
  "green_circle = [CHR 0xF0, CHR 0x9F, CHR 0x9F, CHR 0xA2]"

definition check_mark :: string where
  "check_mark = [CHR 0xE2, CHR 0x9C, CHR 0x85]"

definition stats_metrics :: "statistics \<Rightarrow> 't element list" where
  "stats_metrics stats =
     [Metric ''CPU Usage'' (format_f 1 (latest_cpu stats) @ ''%'')
        (if 80 < latest_cpu stats then Some (format_f 1 (latest_cpu stats - 80) @ ''%'') else None),
      Metric ''Memory Usage'' (format_f 1 (latest_memory stats) @ ''%'')
        (if 85 < latest_memory stats then Some (format_f 1 (latest_memory stats - 85) @ ''%'') else None),
      Metric ''Disk Usage'' (format_f 1 (latest_disk stats) @ ''%'')
        (if 90 < latest_disk stats then Some (format_f 1 (latest_disk stats - 90) @ ''%'') else None),
      Metric ''Ping Status''
        ((if latest_ping_status stats = ''UP'' then green_circle else red_circle) @ '' '' @
         latest_ping_status stats) None,
      Metric ''Ping Time''
        (if 0 < latest_ping_ms stats then format_f 1 (latest_ping_ms stats) @ ''ms'' else ''N/A'') None,
      Metric ''Alert Count'' (str_nat (threshold_violations stats))
        (Some (if 0 < threshold_violations stats then str_nat (threshold_violations stats) else ''0''))]"

definition alert_color :: "string \<Rightarrow> string" where
  "alert_color ty =
     (if ty = ''CPU'' then red_circle
      else if ty = ''MEMORY'' then orange_circle
      else if ty = ''DISK'' then yellow_circle
      else if ty = ''PING'' then blue_circle
      else white_circle)"

definition alert_warning :: "alert_record \<Rightarrow> 't element" where
  "alert_warning alert =
     Warning (alert_color (alert_type alert) @ '' **'' @ alert_timestamp alert @ ''** - '' @
              message alert)"

definition alerts_section :: "statistics \<Rightarrow> alert_record list \<Rightarrow> 't element list" where
  "alerts_section stats alerts_df =
     (if alerts_df \<noteq> []
      then Metric ''Total Alerts'' (str_nat (alert_count stats)) None #
           map alert_warning (take 20 alerts_df)
      else [Success (check_mark @ '' No alerts triggered! All systems operating normally.'')])"

text \<open>The four \<^verbatim>\<open>apply\<close> calls on \<^verbatim>\<open>display_df\<close>.\<close>

definition format_row :: "log_record \<Rightarrow> display_row" where
  "format_row r =
     \<lparr>d_id = log_id r,
      d_timestamp = timestamp r,
      d_cpu = format_f 1 (cpu r) @ ''%'',
      d_memory = format_f 1 (memory r) @ ''%'',
      d_disk = format_f 1 (disk r) @ ''%'',
      d_ping_status = ping_status r,
      d_ping_ms = (if 0 < ping_ms r then format_f 1 (ping_ms r) @ ''ms'' else ''N/A'')\<rparr>"

text \<open>
  The pandas aggregates \<^verbatim>\<open>max\<close> and \<^verbatim>\<open>min\<close> of a column compare doubles and are
  exact. \<^verbatim>\<open>Series.mean\<close> sums doubles in an order that is the library's own, so it is
  the parameter \<open>mean\<close> of the model, applied to a non-empty column. All three are NaN
  (\<open>None\<close>) on an empty column, and \<^verbatim>\<open>f"{nan:.2f}"\<close> is \<^verbatim>\<open>nan\<close>.
\<close>

definition series_mean :: "(real list \<Rightarrow> real) \<Rightarrow> real list \<Rightarrow> real option" where
  "series_mean mean xs = (if xs = [] then None else Some (mean xs))"

definition series_max :: "real list \<Rightarrow> real option" where
  "series_max xs = (case xs of [] \<Rightarrow> None | x # ys \<Rightarrow> Some (fold max ys x))"

definition series_min :: "real list \<Rightarrow> real option" where
  "series_min xs = (case xs of [] \<Rightarrow> None | x # ys \<Rightarrow> Some (fold min ys x))"

definition format_f_nan :: "nat \<Rightarrow> real option \<Rightarrow> string" where
  "format_f_nan p v = (case v of None \<Rightarrow> ''nan'' | Some x \<Rightarrow> format_f p x)"

definition avg_row ::
  "(real list \<Rightarrow> real) \<Rightarrow> string \<Rightarrow> real list \<Rightarrow> string \<times> string \<times> string \<times> string" where
  "avg_row mean name xs =
     (name, format_f_nan 2 (series_mean mean xs), format_f_nan 2 (series_max xs),
      format_f_nan 2 (series_min xs))"

definition avg_stats ::
  "(real list \<Rightarrow> real) \<Rightarrow> log_record list \<Rightarrow> (string \<times> string \<times> string \<times> string) list" where
  "avg_stats mean chart_df =
     [avg_row mean ''CPU'' (map cpu chart_df), avg_row mean ''Memory'' (map memory chart_df),
      avg_row mean ''Disk'' (map disk chart_df)]"

text \<open>
  \<^verbatim>\<open>Series.value_counts()\<close>: each distinct value with the number of its occurrences, by
  descending count, values of equal count in the order of their first occurrence.
\<close>

definition value_counts :: "string list \<Rightarrow> (string \<times> nat) list" where
  "value_counts xs =
     sort_key (\<lambda>p. - int (snd p)) (map (\<lambda>v. (v, count_list xs v)) (rev (remdups (rev xs))))"

text \<open>
  The percentage \<^verbatim>\<open>count/len(chart_df)*100\<close>: the two integers go to doubles exactly,
  the quotient is rounded to a double, its product with 100 is rounded to a double, and
  that double is formatted.
\<close>

definition ping_summary :: "log_record list \<Rightarrow> (string \<times> nat \<times> string) list" where
  "ping_summary chart_df =
     map (\<lambda>(status, count).
            (status, count,
             format_f 1 (fmul (fdiv (real count) (real (length chart_df))) 100) @ ''%''))
         (value_counts (map ping_status chart_df))"

text \<open>
  \<^verbatim>\<open>pd.to_datetime\<close> on a column is the parameter \<open>to_datetime\<close>, applied to each
  string; it raises on the first string it cannot parse.
\<close>

fun to_datetime_column :: "(string \<Rightarrow> 't option) \<Rightarrow> string list \<Rightarrow> error + 't list" where
  "to_datetime_column to_datetime [] = Inr []"
| "to_datetime_column to_datetime (s # col) =
     (case to_datetime s of
        None \<Rightarrow> Inl (ValueError s)
      | Some t \<Rightarrow>
          (case to_datetime_column to_datetime col of
             Inl e \<Rightarrow> Inl e
           | Inr ts \<Rightarrow> Inr (t # ts)))"

definition no_data_message :: string where
  "no_data_message = ''No data available matching the current filters.''"

definition no_ping_message :: string where
  "no_ping_message = ''No successful ping data available for current filters.''"

definition no_chart_message :: string where
  "no_chart_message = ''No data available for charts with current filters.''"

definition make_sure_message :: string where
  "make_sure_message =
     ''Make sure 'log.db' exists in the same directory. Run your logger script first.''"

definition showing_message :: "nat \<Rightarrow> nat \<Rightarrow> nat \<Rightarrow> string" where
  "showing_message n len log_total =
     ''Showing '' @ str_nat (min n len) @ '' of '' @ str_nat len @ '' filtered records (Total: '' @
     str_nat log_total @ '')''"

text \<open>
  The part of the \<^verbatim>\<open>try\<close> block from \<^verbatim>\<open>if not df.empty\<close> on: the elements emitted and
  the exception raised, if one is.
\<close>

definition charts_section ::
  "(string \<Rightarrow> 't option) \<Rightarrow> (real list \<Rightarrow> real) \<Rightarrow> log_record list
     \<Rightarrow> 't element list \<times> error option" where
  "charts_section to_datetime mean chart_df =
     (if chart_df \<noteq> []
      then (case to_datetime_column to_datetime (map timestamp chart_df) of
              Inl e \<Rightarrow> ([], Some e)
            | Inr index \<Rightarrow>
                let chart_data = zip index (map (\<lambda>r. (cpu r, memory r, disk r)) chart_df);
                    ping_df = filter (\<lambda>r. 0 < ping_ms r) chart_df;
                    summary = [AvgTable (avg_stats mean chart_df), PingSummary (ping_summary chart_df)]
                in if ping_df \<noteq> []
                   then (case to_datetime_column to_datetime (map timestamp ping_df) of
                           Inl e \<Rightarrow> ([ResourceChart chart_data], Some e)
                         | Inr ping_index \<Rightarrow>
                             (ResourceChart chart_data # PingChart (zip ping_index (map ping_ms ping_df)) #
                              summary, None))
                   else (ResourceChart chart_data # Info no_ping_message # summary, None))
      else ([Info no_chart_message], None))"

definition logs_section ::
  "(string \<Rightarrow> 't option) \<Rightarrow> (real list \<Rightarrow> real) \<Rightarrow> statistics \<Rightarrow> nat \<Rightarrow> log_record list
     \<Rightarrow> 't element list \<times> error option" where
  "logs_section to_datetime mean stats n df =
     (if df \<noteq> []
      then let display_df = map format_row (take n df);
               shown = [Info (showing_message n (length df) (log_count stats)), LogTable display_df];
               chart_df = sort_key log_id df
           in (case charts_section to_datetime mean chart_df of (es, err) \<Rightarrow> (shown @ es, err))
      else ([Warning no_data_message], None))"

text \<open>
  The call \<^verbatim>\<open>get_system_logs(ping_filter if ping_filter != "All" else None, date_filter,
  cpu_threshold if cpu_threshold > 0 else None)\<close> of the page.
\<close>

definition dashboard_logs :: "(string \<Rightarrow> string option) \<Rightarrow> store \<Rightarrow> inputs \<Rightarrow> error + log_record list" where
  "dashboard_logs DATE st inp =
     (let date_filter = (if use_date_filter inp then Some (start_date inp, end_date inp) else None)
      in get_system_logs DATE st
           (if ping_filter inp \<noteq> ''All'' then Some (ping_filter inp) else None)
           date_filter
           (if 0 < cpu_threshold inp then Some (real_of_int (cpu_threshold inp)) else None))"

definition try_block ::
  "(string \<Rightarrow> string option) \<Rightarrow> (string \<Rightarrow> 't option) \<Rightarrow> (real list \<Rightarrow> real) \<Rightarrow> store \<Rightarrow> inputs
     \<Rightarrow> 't element list \<times> error option" where
  "try_block DATE to_datetime mean st inp =
     (case get_statistics st of
        Inl e \<Rightarrow> ([], Some e)
      | Inr stats \<Rightarrow>
          (case get_alerts_log st of
             Inl e \<Rightarrow> (stats_metrics stats, Some e)
           | Inr alerts_df \<Rightarrow>
               (case dashboard_logs DATE st inp of
                  Inl e \<Rightarrow> (stats_metrics stats @ alerts_section stats alerts_df, Some e)
                | Inr df \<Rightarrow>
                    (case logs_section to_datetime mean stats (num_records inp) df of
                       (es, err) \<Rightarrow> (stats_metrics stats @ alerts_section stats alerts_df @ es, err)))))"

text \<open>\<^verbatim>\<open>except Exception as e\<close>: whatever was emitted stays, then the error and the hint.\<close>

definition dashboard_page ::
  "(string \<Rightarrow> string option) \<Rightarrow> (string \<Rightarrow> 't option) \<Rightarrow> (real list \<Rightarrow> real) \<Rightarrow> store \<Rightarrow> inputs
     \<Rightarrow> 't element list" where
  "dashboard_page DATE to_datetime mean st inp =
     (case try_block DATE to_datetime mean st inp of
        (es, None) \<Rightarrow> es
      | (es, Some e) \<Rightarrow> es @ [Error e, Info make_sure_message])"

text \<open>The database block of \<^verbatim>\<open>sidebar_navigation\<close>, with its bare \<^verbatim>\<open>except\<close>.\<close>

definition sidebar_database :: "store \<Rightarrow> 't element list" where
  "sidebar_database st =
     (case get_statistics st of
        Inr stats \<Rightarrow>
          [Metric ''Total Records'' (str_nat (log_count stats)) None,
           Metric ''Total Alerts'' (str_nat (alert_count stats)) None,
           Metric ''Violations'' (str_nat (threshold_violations stats)) None]
      | Inl e \<Rightarrow> [Warning ''Database not connected''])"

text \<open>The elements that show log rows or figures derived from them.\<close>

fun is_data_view :: "'t element \<Rightarrow> bool" where
  "is_data_view (LogTable _) = True"
| "is_data_view (ResourceChart _) = True"
| "is_data_view (PingChart _) = True"
| "is_data_view (AvgTable _) = True"
| "is_data_view (PingSummary _) = True"
| "is_data_view _ = False"

fun is_error :: "'t element \<Rightarrow> bool" where
  "is_error (Error _) = True"
| "is_error _ = False"

section \<open>Example data\<close>

text \<open>
  A stand-in for SQLite's \<^verbatim>\<open>DATE\<close> on timestamps written as
  \<^verbatim>\<open>YYYY-MM-DD HH:MM:SS\<close>: the first ten characters, NULL on a shorter string.
\<close>

definition iso_date :: "string \<Rightarrow> string option" where
  "iso_date t = (if length t < 10 then None else Some (take 10 t))"

text \<open>A stand-in for \<^verbatim>\<open>Series.mean\<close>: the exact quotient.\<close>

definition exact_mean :: "real list \<Rightarrow> real" where
  "exact_mean xs = sum_list xs / real (length xs)"

definition row1 :: log_record where
  "row1 = \<lparr>log_id = 1, timestamp = ''2024-11-02 10:00:00'', cpu = 40, memory = 50, disk = 60,
           ping_status = ''UP'', ping_ms = 12.5\<rparr>"

definition row2 :: log_record where
  "row2 = \<lparr>log_id = 2, timestamp = ''2024-11-03 10:00:10'', cpu = 60, memory = 55, disk = 60,
           ping_status = ''UP'', ping_ms = 20.25\<rparr>"

definition row3 :: log_record where
  "row3 = \<lparr>log_id = 3, timestamp = ''2024-11-04 10:00:20'', cpu = 80, memory = 90, disk = 60,
           ping_status = ''DOWN'', ping_ms = 0\<rparr>"

definition row4 :: log_record where
  "row4 = \<lparr>log_id = 4, timestamp = ''2024-11-09 10:00:30'', cpu = 85, memory = 50, disk = 60,
           ping_status = ''UP'', ping_ms = 8\<rparr>"

definition example_db :: database where
  "example_db = \<lparr>system_log = Some [row1, row2, row3, row4], alerts_log = Some []\<rparr>"

definition nov :: "nat \<Rightarrow> date" where
  "nov d = \<lparr>year = 2024, month = 11, day = d\<rparr>"

definition alert1 :: alert_record where
  "alert1 = \<lparr>alert_id = 1, alert_timestamp = ''2024-11-04 10:00:20'', alert_type = ''MEMORY'',
             message = ''Memory usage high''\<rparr>"

definition empty_log_db :: database where
  "empty_log_db = \<lparr>system_log = Some [], alerts_log = Some [alert1]\<rparr>"

definition fresh_db :: database where
  "fresh_db = \<lparr>system_log = Some [], alerts_log = Some []\<rparr>"

definition example_inputs :: inputs where
  "example_inputs = \<lparr>ping_filter = ''All'', cpu_threshold = 0, use_date_filter = False,
                      num_records = 2, start_date = nov 1, end_date = nov 30\<rparr>"

definition strict_inputs :: inputs where
  "strict_inputs = \<lparr>ping_filter = ''UP'', cpu_threshold = 95, use_date_filter = False,
                     num_records = 2, start_date = nov 1, end_date = nov 30\<rparr>"

definition cpu_row :: "int \<Rightarrow> real \<Rightarrow> log_record" where
  "cpu_row i c = \<lparr>log_id = i, timestamp = ''2024-11-05 09:00:00'', cpu = c, memory = 50, disk = 60,
                  ping_status = ''UP'', ping_ms = 10\<rparr>"

definition partial_db :: database where
  "partial_db = \<lparr>system_log = Some [row1], alerts_log = None\<rparr>"

definition scenario_db :: database where
  "scenario_db = \<lparr>system_log = Some [cpu_row 1 70, cpu_row 2 85, cpu_row 3 90],
                   alerts_log = Some []\<rparr>"

lemmas example_defs =
  row1_def row2_def row3_def row4_def example_db_def nov_def iso_date_def alert1_def
  empty_log_db_def fresh_db_def example_inputs_def strict_inputs_def partial_db_def

section \<open>Properties of the store accessor\<close>

lemma sql_and_True_iff: "sql_and a b = Some True \<longleftrightarrow> a = Some True \<and> b = Some True"
  by (cases "(a, b)" rule: sql_and.cases) auto

lemma foldl_sql_and_True_iff:
  "foldl sql_and a bs = Some True \<longleftrightarrow> a = Some True \<and> list_all (\<lambda>b. b = Some True) bs"
  by (induction bs arbitrary: a) (auto simp: sql_and_True_iff)

lemma where_clause_True_iff:
  "where_clause DATE cs r = Some True \<longleftrightarrow> list_all (\<lambda>c. eval_condition DATE r c = Some True) cs"
  by (cases cs) (auto simp: where_clause_def foldl_sql_and_True_iff list_all_iff)

lemma sorted_desc_select:
  "sorted_wrt (\<lambda>a b. log_id b \<le> log_id a) (select_system_log DATE cs rows)"
proof -
  have "sorted (map log_id (sort_key log_id (filter (\<lambda>r. where_clause DATE cs r = Some True) rows)))"
    by (rule sorted_sort_key)
  then show ?thesis
    by (simp add: select_system_log_def sorted_wrt_rev sorted_map)
qed

lemma mset_select:
  "mset (select_system_log DATE cs rows) =
     mset (filter (\<lambda>r. list_all (\<lambda>c. eval_condition DATE r c = Some True) cs) rows)"
  by (simp add: select_system_log_def where_clause_True_iff)

lemma strict_desc_select:
  assumes "distinct (map log_id rows)"
  shows "sorted_wrt (\<lambda>a b. log_id b < log_id a) (select_system_log DATE cs rows)"
proof -
  let ?ys = "sort_key log_id (filter (\<lambda>r. where_clause DATE cs r = Some True) rows)"
  have "mset (map log_id ?ys) =
        mset (map log_id (filter (\<lambda>r. where_clause DATE cs r = Some True) rows))"
    by simp
  then have "distinct (map log_id ?ys) =
        distinct (map log_id (filter (\<lambda>r. where_clause DATE cs r = Some True) rows))"
    by (rule mset_eq_imp_distinct_iff)
  with assms have d: "distinct (map log_id ?ys)"
    by (simp add: distinct_map_filter)
  have s: "sorted (map log_id ?ys)"
    by (rule sorted_sort_key)
  from d s have "sorted_wrt (<) (map log_id ?ys)"
    by (simp add: strict_sorted_iff)
  then have "sorted_wrt (\<lambda>a b. log_id a < log_id b) ?ys"
    by (simp add: sorted_wrt_map)
  then show ?thesis
    by (simp add: select_system_log_def sorted_wrt_rev)
qed

lemma get_system_logs_open:
  "system_log db = Some rows \<Longrightarrow>
   get_system_logs DATE (Some db) pf df ct =
     Inr (select_system_log DATE
           ((case ping_restriction pf of None \<Rightarrow> [] | Some s \<Rightarrow> [PingStatusEq s]) @
            (case df of None \<Rightarrow> [] | Some (a, b) \<Rightarrow> [DateBetween (strftime_ymd a) (strftime_ymd b)]) @
            (case ct of None \<Rightarrow> [] | Some t \<Rightarrow> [CpuGe t])) rows)"
  by (auto simp: get_system_logs_def connect_def ping_restriction_def Let_def
           split: option.splits prod.splits)

lemma conditions_hold_iff:
  "list_all (\<lambda>c. eval_condition DATE r c = Some True)
     ((case ping_restriction pf of None \<Rightarrow> [] | Some s \<Rightarrow> [PingStatusEq s]) @
      (case df of None \<Rightarrow> [] | Some (a, b) \<Rightarrow> [DateBetween (strftime_ymd a) (strftime_ymd b)]) @
      (case ct of None \<Rightarrow> [] | Some t \<Rightarrow> [CpuGe t]))
   \<longleftrightarrow> spec_ping_ok pf r \<and> spec_date_ok DATE df r \<and> spec_cpu_ok ct r"
  by (auto simp: spec_ping_ok_def spec_date_ok_def spec_cpu_ok_def split: option.splits prod.splits)


section \<open>Properties of the statistics aggregator and of the page\<close>

lemma get_statistics_available:
  "system_log db = Some logs \<Longrightarrow> alerts_log db = Some alerts \<Longrightarrow>
   get_statistics (Some db) =
     Inr \<lparr>log_count = length logs,
          alert_count = length alerts,
          threshold_violations = length (filter violates_threshold logs),
          latest_cpu = (case rev (sort_key log_id logs) of [] \<Rightarrow> 0 | r # _ \<Rightarrow> cpu r),
          latest_memory = (case rev (sort_key log_id logs) of [] \<Rightarrow> 0 | r # _ \<Rightarrow> memory r),
          latest_disk = (case rev (sort_key log_id logs) of [] \<Rightarrow> 0 | r # _ \<Rightarrow> disk r),
          latest_ping_status =
            (case rev (sort_key log_id logs) of [] \<Rightarrow> ''N/A'' | r # _ \<Rightarrow> ping_status r),
          latest_ping_ms = (case rev (sort_key log_id logs) of [] \<Rightarrow> 0 | r # _ \<Rightarrow> ping_ms r)\<rparr>"
  by (simp add: get_statistics_def connect_def Let_def split: list.splits)

lemma get_alerts_log_available:
  "alerts_log db = Some alerts \<Longrightarrow>
   get_alerts_log (Some db) = Inr (take 50 (rev (sort_key alert_id alerts)))"
  by (simp add: get_alerts_log_def connect_def)

lemma dashboard_logs_available:
  "system_log db = Some logs \<Longrightarrow> \<exists>df. dashboard_logs DATE (Some db) inp = Inr df"
  by (simp add: dashboard_logs_def get_system_logs_def connect_def Let_def)

lemma dashboard_page_unavailable:
  "get_statistics st = Inl e \<Longrightarrow> dashboard_page DATE td mean st inp = [Error e, Info make_sure_message]"
  by (simp add: dashboard_page_def try_block_def)

lemma dashboard_page_available:
  "get_statistics st = Inr stats \<Longrightarrow> get_alerts_log st = Inr alerts_df \<Longrightarrow>
   dashboard_logs DATE st inp = Inr df \<Longrightarrow>
   dashboard_page DATE td mean st inp =
     stats_metrics stats @ alerts_section stats alerts_df @
     (case logs_section td mean stats (num_records inp) df of
        (es, None) \<Rightarrow> es
      | (es, Some e) \<Rightarrow> es @ [Error e, Info make_sure_message])"
  by (simp add: dashboard_page_def try_block_def split: prod.splits option.splits)

lemma length_stats_metrics: "length (stats_metrics stats) = 6"
  by (simp add: stats_metrics_def)

lemma violations_scenario:
  "map cpu logs = [70, 85, 90] \<Longrightarrow> list_all (\<lambda>r. memory r \<le> 85 \<and> disk r \<le> 90) logs \<Longrightarrow>
   length (filter violates_threshold logs) = 2"
  by (auto simp: violates_threshold_def map_eq_Cons_conv)

section \<open>Properties of formatting and of the log section\<close>

lemma round_half_even_near: "\<bar>y - real_of_int (round_half_even y)\<bar> \<le> 1/2"
proof -
  have "real_of_int \<lfloor>y\<rfloor> \<le> y" and "y < real_of_int \<lfloor>y\<rfloor> + 1"
    by linarith+
  then show ?thesis
    by (auto simp: round_half_even_def Let_def)
qed

lemma round_half_even_nonneg: "0 \<le> y \<Longrightarrow> 0 \<le> round_half_even y"
  by (auto simp: round_half_even_def Let_def)

lemma str_nat_digit: "d < 10 \<Longrightarrow> str_nat d = [digit_char d]"
  by (simp add: str_nat.simps)

lemma format_f_one_decimal:
  "\<exists>n d. d < 10
     \<and> format_f 1 x = (if x < 0 then ''-'' else '''') @ str_nat n @ ''.'' @ [digit_char d]
     \<and> \<bar>\<bar>x\<bar> - (real n + real d / 10)\<bar> \<le> 1/20"
proof -
  define q where "q = nat (round_half_even (\<bar>x\<bar> * 10))"
  have d: "q mod 10 < 10" by simp
  have fmt: "format_f 1 x =
               (if x < 0 then ''-'' else '''') @ str_nat (q div 10) @ ''.'' @ [digit_char (q mod 10)]"
    by (simp add: format_f_def q_def [symmetric] zfill_def str_nat_digit Let_def)
  have "0 \<le> round_half_even (\<bar>x\<bar> * 10)"
    by (rule round_half_even_nonneg) simp
  then have "real q = real_of_int (round_half_even (\<bar>x\<bar> * 10))"
    by (simp add: q_def)
  with round_half_even_near [of "\<bar>x\<bar> * 10"] have near: "\<bar>\<bar>x\<bar> * 10 - real q\<bar> \<le> 1/2"
    by simp
  have "real q = real (q div 10) * 10 + real (q mod 10)"
    by (metis div_mult_mod_eq of_nat_add of_nat_mult of_nat_numeral)
  with near have "\<bar>\<bar>x\<bar> - (real (q div 10) + real (q mod 10) / 10)\<bar> \<le> 1/20"
    by linarith
  with d fmt show ?thesis by blast
qed

lemma format_row_fields:
  "d_cpu (format_row r) = format_f 1 (cpu r) @ ''%''
   \<and> d_memory (format_row r) = format_f 1 (memory r) @ ''%''
   \<and> d_disk (format_row r) = format_f 1 (disk r) @ ''%''
   \<and> d_id (format_row r) = log_id r \<and> d_timestamp (format_row r) = timestamp r
   \<and> d_ping_status (format_row r) = ping_status r
   \<and> (0 < ping_ms r \<longrightarrow> d_ping_ms (format_row r) = format_f 1 (ping_ms r) @ ''ms'')
   \<and> (ping_ms r = 0 \<longrightarrow> d_ping_ms (format_row r) = ''N/A'')"
  by (simp add: format_row_def)

lemma to_datetime_column_rows:
  "\<forall>r \<in> set rows. td (timestamp r) = Some (dt r) \<Longrightarrow>
   to_datetime_column td (map timestamp rows) = Inr (map dt rows)"
  by (induction rows) auto

lemma zip_map_same: "zip (map f xs) (map g xs) = map (\<lambda>x. (f x, g x)) xs"
  by (induction xs) auto

lemma charts_section_parsed:
  assumes "chart_df \<noteq> []" and "\<forall>r \<in> set chart_df. td (timestamp r) = Some (dt r)"
  shows "charts_section td mean chart_df =
           ([ResourceChart (map (\<lambda>r. (dt r, cpu r, memory r, disk r)) chart_df),
             (if filter (\<lambda>r. 0 < ping_ms r) chart_df = [] then Info no_ping_message
              else PingChart (map (\<lambda>r. (dt r, ping_ms r)) (filter (\<lambda>r. 0 < ping_ms r) chart_df))),
             AvgTable (avg_stats mean chart_df), PingSummary (ping_summary chart_df)], None)"
proof -
  have all: "to_datetime_column td (map timestamp chart_df) = Inr (map dt chart_df)"
    using assms(2) by (rule to_datetime_column_rows)
  have "\<forall>r \<in> set (filter (\<lambda>r. 0 < ping_ms r) chart_df). td (timestamp r) = Some (dt r)"
    using assms(2) by simp
  then have pos: "to_datetime_column td (map timestamp (filter (\<lambda>r. 0 < ping_ms r) chart_df)) =
                    Inr (map dt (filter (\<lambda>r. 0 < ping_ms r) chart_df))"
    by (rule to_datetime_column_rows)
  show ?thesis
    using assms(1) by (simp add: charts_section_def all pos Let_def zip_map_same)
qed

lemma charts_section_elements:
  "e \<in> set (fst (charts_section td mean chart_df)) \<Longrightarrow>
     (\<forall>m. e \<noteq> Warning m) \<and> (\<forall>t. e \<noteq> LogTable t) \<and> \<not> is_error e"
  by (auto simp: charts_section_def Let_def split: if_splits sum.splits)

lemma logs_section_nonempty:
  assumes "df \<noteq> []"
  shows "logs_section td mean stats n df =
           (Info (showing_message n (length df) (log_count stats)) #
            LogTable (map format_row (take n df)) #
            fst (charts_section td mean (sort_key log_id df)),
            snd (charts_section td mean (sort_key log_id df)))"
  using assms by (simp add: logs_section_def Let_def split: prod.splits)

lemma logs_section_empty: "logs_section td mean stats n [] = ([Warning no_data_message], None)"
  by (simp add: logs_section_def)

lemma alert_warning_not_no_data: "alert_warning a \<noteq> Warning no_data_message"
  by (simp add: alert_warning_def alert_color_def no_data_message_def red_circle_def
        orange_circle_def yellow_circle_def blue_circle_def white_circle_def)

lemma stats_metrics_elements:
  "e \<in> set (stats_metrics stats) \<Longrightarrow> \<exists>l v d. e = Metric l v d"
  unfolding stats_metrics_def by (elim set_ConsD [elim_format]) auto

lemma alerts_section_elements:
  "e \<in> set (alerts_section stats alerts_df) \<Longrightarrow>
     (\<exists>l v d. e = Metric l v d) \<or> (\<exists>a. e = alert_warning a) \<or> (\<exists>m. e = Success m)"
  by (cases "alerts_df = []") (auto simp: alerts_section_def)

lemma head_elements:
  assumes "e \<in> set (stats_metrics stats @ alerts_section stats alerts_df)"
  shows "\<not> is_data_view e \<and> \<not> is_error e \<and> e \<noteq> Warning no_data_message
         \<and> e \<noteq> Info no_ping_message \<and> (\<forall>c. e \<noteq> PingChart c)"
proof -
  from assms consider (m) l v d where "e = Metric l v d" | (a) a where "e = alert_warning a"
    | (s) m where "e = Success m"
    using stats_metrics_elements alerts_section_elements by fastforce
  then show ?thesis
  proof cases
    case m then show ?thesis by simp
  next
    case a then show ?thesis
      using alert_warning_not_no_data [of a] by (simp add: alert_warning_def)
  next
    case s then show ?thesis by simp
  qed
qed

section \<open>Properties of the rendered page\<close>

lemma get_system_logs_sorted:
  "get_system_logs DATE st pf df ct = Inr res \<Longrightarrow> sorted_wrt (\<lambda>a b. log_id b \<le> log_id a) res"
  by (auto simp: get_system_logs_def Let_def sorted_desc_select split: sum.splits option.splits)

lemma dashboard_logs_sorted:
  "dashboard_logs DATE st inp = Inr df \<Longrightarrow> sorted_wrt (\<lambda>a b. log_id b \<le> log_id a) df"
  unfolding dashboard_logs_def Let_def by (rule get_system_logs_sorted)

lemma get_statistics_unavailable:
  "st = None \<or> st = Some db \<and> (system_log db = None \<or> alerts_log db = None) \<Longrightarrow>
   \<exists>e. get_statistics st = Inl e"
  by (cases "system_log db") (auto simp: get_statistics_def connect_def)

lemma page_empty:
  assumes "get_statistics st = Inr stats" and "get_alerts_log st = Inr alerts_df"
    and "dashboard_logs DATE st inp = Inr []"
  shows "dashboard_page DATE td mean st inp =
           stats_metrics stats @ alerts_section stats alerts_df @ [Warning no_data_message]"
  using assms by (simp add: dashboard_page_available logs_section_empty)

lemma page_nonempty:
  assumes "get_statistics st = Inr stats" and "get_alerts_log st = Inr alerts_df"
    and "dashboard_logs DATE st inp = Inr df" and "df \<noteq> []"
  shows "dashboard_page DATE td mean st inp =
           (stats_metrics stats @ alerts_section stats alerts_df) @
           Info (showing_message (num_records inp) (length df) (log_count stats)) #
           LogTable (map format_row (take (num_records inp) df)) #
           fst (charts_section td mean (sort_key log_id df)) @
           (case snd (charts_section td mean (sort_key log_id df)) of
              None \<Rightarrow> [] | Some e \<Rightarrow> [Error e, Info make_sure_message])"
  using assms by (simp add: dashboard_page_available logs_section_nonempty split: option.splits)

lemma page_parsed:
  assumes "get_statistics st = Inr stats" and "get_alerts_log st = Inr alerts_df"
    and "dashboard_logs DATE st inp = Inr df" and "df \<noteq> []"
    and "\<forall>r \<in> set df. td (timestamp r) = Some (dt r)"
  shows "dashboard_page DATE td mean st inp =
           (stats_metrics stats @ alerts_section stats alerts_df) @
           [Info (showing_message (num_records inp) (length df) (log_count stats)),
            LogTable (map format_row (take (num_records inp) df)),
            ResourceChart (map (\<lambda>r. (dt r, cpu r, memory r, disk r)) (sort_key log_id df)),
            (if filter (\<lambda>r. 0 < ping_ms r) (sort_key log_id df) = [] then Info no_ping_message
             else PingChart (map (\<lambda>r. (dt r, ping_ms r))
                    (filter (\<lambda>r. 0 < ping_ms r) (sort_key log_id df)))),
            AvgTable (avg_stats mean (sort_key log_id df)),
            PingSummary (ping_summary (sort_key log_id df))]"
proof -
  let ?chart_df = "sort_key log_id df"
  have ne: "?chart_df \<noteq> []"
    using assms(4) by (metis length_0_conv length_sort)
  have parsed: "\<forall>r \<in> set ?chart_df. td (timestamp r) = Some (dt r)"
    using assms(5) by simp
  show ?thesis
    using page_nonempty [OF assms(1-4), of td mean]
    by (simp add: charts_section_parsed [OF ne parsed])
qed

lemma filter_sort_key_Nil: "filter P (sort_key f xs) = [] \<longleftrightarrow> filter P xs = []"
  by (simp add: filter_empty_conv)

section \<open>Properties of the ping-status summary\<close>

lemma count_list_map: "count_list (map f xs) y = length (filter (\<lambda>x. f x = y) xs)"
  by (induction xs) auto

lemma set_value_counts: "set (value_counts xs) = (\<lambda>v. (v, count_list xs v)) ` set xs"
  by (simp add: value_counts_def)

lemma distinct_value_counts: "distinct (map fst (value_counts xs))"
proof -
  let ?ys = "map (\<lambda>v. (v, count_list xs v)) (rev (remdups (rev xs)))"
  have "mset (map fst (sort_key k ys)) = mset (map fst ys)" for k :: "string \<times> nat \<Rightarrow> int" and ys
    by simp
  then have "mset (map fst (value_counts xs)) = mset (map fst ?ys)"
    unfolding value_counts_def .
  then have "distinct (map fst (value_counts xs)) = distinct (map fst ?ys)"
    by (rule mset_eq_imp_distinct_iff)
  then show ?thesis
    by (simp add: comp_def)
qed

lemma map_fst_ping_summary:
  "map fst (ping_summary chart_df) = map fst (value_counts (map ping_status chart_df))"
  by (simp add: ping_summary_def comp_def case_prod_beta)

lemma ping_summary_entry:
  assumes "(s, c, p) \<in> set (ping_summary chart_df)"
  shows "c = length (filter (\<lambda>r. ping_status r = s) chart_df)
         \<and> p = format_f 1 (fmul (fdiv (real c) (real (length chart_df))) 100) @ ''%''"
  using assms by (auto simp: ping_summary_def set_value_counts count_list_map)

lemma percentage_23_of_80: "format_f 1 (fmul (fdiv 23 80) 100) = ''28.7''"
  by (simp add: fmul_def fdiv_def round_double_def binade_def ulp_def exp_up.simps
        exp_down.simps format_f_def round_half_even_def str_nat.simps digit_char_def zfill_def
        Let_def)

lemma ping_summary_scenario:
  assumes "map ping_status chart_df = [''UP'', ''UP'', ''DOWN'']"
  shows "ping_summary chart_df = [(''UP'', 2, ''66.7%''), (''DOWN'', 1, ''33.3%'')]"
proof -
  have "length (map ping_status chart_df) = 3"
    by (simp only: assms) simp
  then have len: "length chart_df = 3"
    by simp
  have vc: "value_counts [''UP'', ''UP'', ''DOWN''] = [(''UP'', 2), (''DOWN'', 1)]"
    by (simp add: value_counts_def)
  have f2: "format_f (Suc 0) (fmul (fdiv 2 3) 100) = ''66.7''"
    and f1: "format_f (Suc 0) (fmul (fdiv 1 3) 100) = ''33.3''"
    by (simp_all add: fmul_def fdiv_def round_double_def binade_def ulp_def exp_up.simps
          exp_down.simps format_f_def round_half_even_def str_nat.simps digit_char_def zfill_def
          Let_def)
  show ?thesis
    by (simp add: ping_summary_def assms vc len f1 f2)
qed

section \<open>The example store, evaluated\<close>

lemma example_statistics: "\<exists>stats. get_statistics (Some example_db) = Inr stats"
  by (simp add: get_statistics_def connect_def example_db_def Let_def)

lemma example_alerts: "get_alerts_log (Some example_db) = Inr []"
  by (simp add: get_alerts_log_def connect_def example_db_def)

lemma example_logs_all:
  "dashboard_logs iso_date (Some example_db) example_inputs = Inr [row4, row3, row2, row1]"
  by (simp add: dashboard_logs_def get_system_logs_def connect_def select_system_log_def
        where_clause_def example_defs)

lemma example_logs_strict:
  "dashboard_logs iso_date (Some example_db) strict_inputs = Inr []"
  by (simp add: dashboard_logs_def get_system_logs_def connect_def select_system_log_def
        where_clause_def example_defs)

lemma example_chart_df: "sort_key log_id [row4, row3, row2, row1] = [row1, row2, row3, row4]"
  by (simp add: row1_def row2_def row3_def row4_def)

section \<open>Properties of the query cache\<close>

lemma cache_hit:
  "get_or_compute c0 t1 k ttl f1 = (Inr v, c1, True) \<Longrightarrow> t2 - t1 < ttl \<Longrightarrow>
   get_or_compute c1 t2 k ttl f2 = (Inr v, c1, False)"
  by (auto simp: get_or_compute_def Let_def split: option.splits sum.splits if_splits prod.splits)

lemma cache_expired:
  "get_or_compute c0 t1 k ttl f1 = (Inr v, c1, True) \<Longrightarrow> ttl < t2 - t1 \<Longrightarrow>
   fst (get_or_compute c1 t2 k ttl f2) = f2 () \<and> snd (snd (get_or_compute c1 t2 k ttl f2))"
  by (auto simp: get_or_compute_def Let_def split: option.splits sum.splits if_splits prod.splits)

lemma cache_invalidated:
  "fst (get_or_compute (invalidate_all c) t k ttl f) = f () \<and>
   snd (snd (get_or_compute (invalidate_all c) t k ttl f))"
  by (auto simp: get_or_compute_def invalidate_all_def Let_def split: sum.splits)


section \<open>Claims about the store accessor\<close>

text \<open>
  C1. For every combination of the three optional filters, \<^verbatim>\<open>get_system_logs\<close> on an
  available store returns rows that each satisfy every restriction present (ping status
  equality, \<^verbatim>\<open>DATE(timestamp)\<close> within the inclusive range, cpu at least the threshold);
  the restrictions are conjoined, so the result holds exactly the rows of the table that
  satisfy all of them (no row missing, none added); with no restriction present the result
  is the whole table; and the result is always in descending order of id, strictly so when
  the ids are distinct (id is the primary key).
\<close>

theorem get_system_logs_filters:
  assumes "system_log db = Some rows"
  shows "\<exists>res. get_system_logs DATE (Some db) pf df ct = Inr res
           \<and> (\<forall>r \<in> set res. spec_ping_ok pf r \<and> spec_date_ok DATE df r \<and> spec_cpu_ok ct r)
           \<and> mset res =
               mset (filter (\<lambda>r. spec_ping_ok pf r \<and> spec_date_ok DATE df r \<and> spec_cpu_ok ct r) rows)
           \<and> sorted_wrt (\<lambda>a b. log_id b \<le> log_id a) res
           \<and> (distinct (map log_id rows) \<longrightarrow> sorted_wrt (\<lambda>a b. log_id b < log_id a) res)
           \<and> (ping_restriction pf = None \<and> df = None \<and> ct = None \<longrightarrow> mset res = mset rows)"
proof -
  let ?cs = "(case ping_restriction pf of None \<Rightarrow> [] | Some s \<Rightarrow> [PingStatusEq s]) @
             (case df of None \<Rightarrow> [] | Some (a, b) \<Rightarrow> [DateBetween (strftime_ymd a) (strftime_ymd b)]) @
             (case ct of None \<Rightarrow> [] | Some t \<Rightarrow> [CpuGe t])"
  let ?ok = "\<lambda>r. spec_ping_ok pf r \<and> spec_date_ok DATE df r \<and> spec_cpu_ok ct r"
  let ?res = "select_system_log DATE ?cs rows"
  have run: "get_system_logs DATE (Some db) pf df ct = Inr ?res"
    using assms by (rule get_system_logs_open)
  have m: "mset ?res = mset (filter ?ok rows)"
    unfolding mset_select conditions_hold_iff ..
  have "set ?res = set (filter ?ok rows)"
    using m by (rule mset_eq_setD)
  then have sound: "\<forall>r \<in> set ?res. ?ok r"
    by simp
  have all: "ping_restriction pf = None \<and> df = None \<and> ct = None \<longrightarrow> mset ?res = mset rows"
    unfolding m by (simp add: spec_ping_ok_def spec_date_ok_def spec_cpu_ok_def)
  have strict: "distinct (map log_id rows) \<longrightarrow> sorted_wrt (\<lambda>a b. log_id b < log_id a) ?res"
    by (simp add: strict_desc_select)
  from run sound m sorted_desc_select [of DATE ?cs rows] strict all show ?thesis
    by blast
qed

theorem get_system_logs_filters_witness:
  "system_log example_db = Some [row1, row2, row3, row4]
   \<and> (\<exists>res. get_system_logs iso_date (Some example_db) (Some ''UP'') (Some (nov 3, nov 9)) (Some 50)
               = Inr res
         \<and> mset res = mset [row2, row4]
         \<and> sorted_wrt (\<lambda>a b. log_id b < log_id a) res)"
proof -
  have h: "system_log example_db = Some [row1, row2, row3, row4]"
    by (simp add: example_db_def)
  have d: "distinct (map log_id [row1, row2, row3, row4])"
    by (simp add: example_defs)
  have f: "filter (\<lambda>r. spec_ping_ok (Some ''UP'') r \<and> spec_date_ok iso_date (Some (nov 3, nov 9)) r
                        \<and> spec_cpu_ok (Some 50) r) [row1, row2, row3, row4] = [row2, row4]"
    by (simp add: example_defs spec_ping_ok_def spec_date_ok_def spec_cpu_ok_def
          ping_restriction_def strftime_ymd_def zfill_def str_nat.simps digit_char_def)
  show ?thesis
    using get_system_logs_filters [OF h, of iso_date "Some ''UP''" "Some (nov 3, nov 9)" "Some 50"] h d
    unfolding f by blast
qed

text \<open>
  C10. \<^verbatim>\<open>get_system_logs\<close> called with \<^verbatim>\<open>ping_filter = "All"\<close> returns what it returns
  with \<^verbatim>\<open>ping_filter = None\<close>, whatever the date filter, the cpu threshold and the store:
  the literal \<^verbatim>\<open>All\<close> adds no condition on \<^verbatim>\<open>ping_status\<close>.
\<close>

theorem get_system_logs_All_is_None:
  "get_system_logs DATE st (Some ''All'') df ct = get_system_logs DATE st None df ct"
  by (simp add: get_system_logs_def split: sum.splits)

theorem get_system_logs_All_is_None_witness:
  "get_system_logs iso_date (Some example_db) (Some ''All'') None (Some 50) = Inr [row4, row3, row2]
   \<and> get_system_logs iso_date (Some example_db) None None (Some 50) = Inr [row4, row3, row2]"
proof -
  have "get_system_logs iso_date (Some example_db) None None (Some 50) = Inr [row4, row3, row2]"
    by (simp add: get_system_logs_def connect_def select_system_log_def where_clause_def
          example_defs)
  then show ?thesis
    using get_system_logs_All_is_None [of iso_date "Some example_db" None "Some 50"] by simp
qed

section \<open>Claims about the statistics aggregator\<close>

text \<open>
  C3, as amended. On a store in which both tables exist and \<^verbatim>\<open>system_log\<close> is empty,
  \<^verbatim>\<open>get_statistics\<close> does not raise and returns log count 0, threshold-violation count 0,
  latest cpu, memory, disk and ping_ms 0 and latest ping status \<^verbatim>\<open>N/A\<close>; the alert count
  is the number of rows of \<^verbatim>\<open>alerts_log\<close>, which is 0 when that table is empty too.
\<close>

theorem get_statistics_empty_log_table:
  assumes "system_log db = Some []" and "alerts_log db = Some alerts"
  shows "get_statistics (Some db) =
           Inr \<lparr>log_count = 0, alert_count = length alerts, threshold_violations = 0,
                latest_cpu = 0, latest_memory = 0, latest_disk = 0,
                latest_ping_status = ''N/A'', latest_ping_ms = 0\<rparr>"
  using assms by (simp add: get_statistics_available)

theorem get_statistics_empty_log_table_witness:
  "system_log fresh_db = Some [] \<and> alerts_log fresh_db = Some [] \<and>
   get_statistics (Some fresh_db) =
     Inr \<lparr>log_count = 0, alert_count = 0, threshold_violations = 0,
          latest_cpu = 0, latest_memory = 0, latest_disk = 0,
          latest_ping_status = ''N/A'', latest_ping_ms = 0\<rparr>"
  using get_statistics_empty_log_table [of fresh_db "[]"] by (simp add: fresh_db_def)

text \<open>
  The claim as first stated asks for a zero alert count whenever the log table is empty.
  With an empty \<^verbatim>\<open>system_log\<close> and one row in \<^verbatim>\<open>alerts_log\<close> the alert count is 1.
\<close>

theorem get_statistics_alert_count_counterexample:
  "system_log empty_log_db = Some [] \<and>
   get_statistics (Some empty_log_db) =
     Inr \<lparr>log_count = 0, alert_count = 1, threshold_violations = 0,
          latest_cpu = 0, latest_memory = 0, latest_disk = 0,
          latest_ping_status = ''N/A'', latest_ping_ms = 0\<rparr>"
  by (simp add: get_statistics_def connect_def empty_log_db_def)

text \<open>
  C5. The \<^verbatim>\<open>threshold_violations\<close> field is the number of rows of the whole
  \<^verbatim>\<open>system_log\<close> table with cpu above 80, memory above 85 or disk above 90;
  \<^verbatim>\<open>get_statistics\<close> takes no filter, and the six snapshot metrics at the head of the page
  are the same for every setting of the filter widgets. For rows with cpu 70, 85, 90 and
  memory and disk within their limits the count is 2.
\<close>

theorem threshold_violations_global:
  assumes "system_log db = Some logs" and "alerts_log db = Some alerts"
  shows "\<exists>s. get_statistics (Some db) = Inr s
           \<and> threshold_violations s =
               length (filter (\<lambda>r. 80 < cpu r \<or> 85 < memory r \<or> 90 < disk r) logs)
           \<and> (\<forall>inp. take 6 (dashboard_page DATE td mean (Some db) inp) = stats_metrics s)
           \<and> (map cpu logs = [70, 85, 90] \<and> list_all (\<lambda>r. memory r \<le> 85 \<and> disk r \<le> 90) logs
                \<longrightarrow> threshold_violations s = 2)"
proof -
  from assms obtain s where s: "get_statistics (Some db) = Inr s"
    and tv: "threshold_violations s = length (filter violates_threshold logs)"
    by (simp add: get_statistics_available)
  have count: "threshold_violations s =
                 length (filter (\<lambda>r. 80 < cpu r \<or> 85 < memory r \<or> 90 < disk r) logs)"
    using tv unfolding violates_threshold_def .
  have page: "take 6 (dashboard_page DATE td mean (Some db) inp) = stats_metrics s" for inp
  proof -
    from assms(1) obtain df where "dashboard_logs DATE (Some db) inp = Inr df"
      using dashboard_logs_available by blast
    with s get_alerts_log_available [OF assms(2)] show ?thesis
      by (simp add: dashboard_page_available length_stats_metrics)
  qed
  have scen: "map cpu logs = [70, 85, 90] \<and> list_all (\<lambda>r. memory r \<le> 85 \<and> disk r \<le> 90) logs
                \<longrightarrow> threshold_violations s = 2"
    using tv violations_scenario [of logs] by simp
  from s count page scen show ?thesis
    by blast
qed

theorem threshold_violations_global_witness:
  "system_log scenario_db = Some [cpu_row 1 70, cpu_row 2 85, cpu_row 3 90]
   \<and> alerts_log scenario_db = Some []
   \<and> (\<exists>s. get_statistics (Some scenario_db) = Inr s \<and> threshold_violations s = 2)"
proof -
  have h1: "system_log scenario_db = Some [cpu_row 1 70, cpu_row 2 85, cpu_row 3 90]"
    and h2: "alerts_log scenario_db = Some []"
    by (simp_all add: scenario_db_def)
  have h3: "map cpu [cpu_row 1 70, cpu_row 2 85, cpu_row 3 90] = [70, 85, 90]"
    and h4: "list_all (\<lambda>r. memory r \<le> 85 \<and> disk r \<le> 90) [cpu_row 1 70, cpu_row 2 85, cpu_row 3 90]"
    by (simp_all add: cpu_row_def)
  show ?thesis
    using threshold_violations_global [OF h1 h2, of iso_date Some exact_mean] h1 h2 h3 h4 by blast
qed

section \<open>Claims about the query cache\<close>

text \<open>
  C4. After a call of \<^verbatim>\<open>get_or_compute\<close> that computed and stored a value for a key, a
  second call with the same key less than \<open>ttl_seconds\<close> later returns that value and does
  not invoke its \<open>compute_fn\<close>; a call more than \<open>ttl_seconds\<close> later invokes
  \<open>compute_fn\<close> again and returns its result; after \<^verbatim>\<open>invalidate_all\<close> no key has an
  entry and the next call invokes \<open>compute_fn\<close> whatever the time. The accessor
  \<^verbatim>\<open>get_system_logs\<close> is cached with a time-to-live of 10 seconds, keyed by its arguments.
\<close>

theorem query_cache_contract:
  "(get_or_compute c0 t1 k ttl f1 = (Inr v, c1, True) \<and> t2 - t1 < ttl
      \<longrightarrow> get_or_compute c1 t2 k ttl f2 = (Inr v, c1, False))
   \<and> (get_or_compute c0 t1 k ttl f1 = (Inr v, c1, True) \<and> ttl < t2 - t1
      \<longrightarrow> fst (get_or_compute c1 t2 k ttl f2) = f2 () \<and> snd (snd (get_or_compute c1 t2 k ttl f2)))
   \<and> invalidate_all c k' = None
   \<and> fst (get_or_compute (invalidate_all c) t k ttl f) = f ()
   \<and> snd (snd (get_or_compute (invalidate_all c) t k ttl f))
   \<and> cached_get_system_logs c' t DATE st pf df ct =
       get_or_compute c' t (pf, df, ct) 10 (\<lambda>_. get_system_logs DATE st pf df ct)"
  using cache_hit [of c0 t1 k ttl f1 v c1 t2 f2] cache_expired [of c0 t1 k ttl f1 v c1 t2 f2]
    cache_invalidated [of c t k ttl f]
  by (simp add: invalidate_all_def cached_get_system_logs_def cache_ttl_def)

theorem query_cache_contract_witness:
  "cached_get_system_logs Map.empty 100 iso_date (Some example_db) None None (Some 50) =
     (Inr [row4, row3, row2], [(None, None, Some 50) \<mapsto> ([row4, row3, row2], 100)], True)
   \<and> (105 :: real) - 100 < 10
   \<and> cached_get_system_logs [(None, None, Some 50) \<mapsto> ([row4, row3, row2], 100)] 105 iso_date None
       None None (Some 50) =
     (Inr [row4, row3, row2], [(None, None, Some 50) \<mapsto> ([row4, row3, row2], 100)], False)"
proof -
  let ?k = "(None :: string option, None :: (date \<times> date) option, Some (50 :: real))"
  let ?c1 = "[?k \<mapsto> ([row4, row3, row2], 100 :: real)]"
  have rows: "get_system_logs iso_date (Some example_db) None None (Some 50) = Inr [row4, row3, row2]"
    by (simp add: get_system_logs_def connect_def select_system_log_def where_clause_def
          example_defs)
  have first: "get_or_compute Map.empty 100 ?k 10
                 (\<lambda>_. get_system_logs iso_date (Some example_db) None None (Some 50)) =
               (Inr [row4, row3, row2], ?c1, True)"
    by (simp add: get_or_compute_def rows)
  have t: "(105 :: real) - 100 < 10" by simp
  have second: "get_or_compute ?c1 105 ?k 10 (\<lambda>_. get_system_logs iso_date None None None (Some 50)) =
               (Inr [row4, row3, row2], ?c1, False)"
    using query_cache_contract
      [of Map.empty 100 ?k 10 "\<lambda>_. get_system_logs iso_date (Some example_db) None None (Some 50)"
          "[row4, row3, row2]" ?c1 105 "\<lambda>_. get_system_logs iso_date None None None (Some 50)"]
      first t by blast
  show ?thesis
    using first second t by (simp add: cached_get_system_logs_def cache_ttl_def)
qed

section \<open>Claims about the view assembler\<close>

text \<open>
  C2. When the filtered sequence is empty (the query succeeds with no row), the page is
  the snapshot metrics, the alert section and then the warning \<^verbatim>\<open>No data available
  matching the current filters.\<close> and nothing else: no log table, no chart, no summary table
  (so no aggregate over an empty column) and no error element. The warning is on the page
  exactly when the filtered sequence is empty, which tells this state from a non-empty
  result and from a failure of the store.
\<close>

theorem empty_filtered_sequence:
  assumes "get_statistics st = Inr stats" and "get_alerts_log st = Inr alerts_df"
    and "dashboard_logs DATE st inp = Inr df"
  shows "(df = [] \<longrightarrow>
            dashboard_page DATE td mean st inp =
              stats_metrics stats @ alerts_section stats alerts_df @ [Warning no_data_message]
            \<and> list_all (\<lambda>e. \<not> is_data_view e \<and> \<not> is_error e) (dashboard_page DATE td mean st inp))
         \<and> (Warning no_data_message \<in> set (dashboard_page DATE td mean st inp) \<longleftrightarrow> df = [])"
proof (cases "df = []")
  case True
  with assms have page: "dashboard_page DATE td mean st inp =
      (stats_metrics stats @ alerts_section stats alerts_df) @ [Warning no_data_message]"
    by (simp add: page_empty)
  have "list_all (\<lambda>e. \<not> is_data_view e \<and> \<not> is_error e) (dashboard_page DATE td mean st inp)"
    unfolding page list_all_iff using head_elements [of _ stats alerts_df] by auto
  with True page show ?thesis by simp
next
  case False
  let ?cs = "charts_section td mean (sort_key log_id df)"
  have page: "dashboard_page DATE td mean st inp =
           (stats_metrics stats @ alerts_section stats alerts_df) @
           Info (showing_message (num_records inp) (length df) (log_count stats)) #
           LogTable (map format_row (take (num_records inp) df)) #
           fst ?cs @ (case snd ?cs of None \<Rightarrow> [] | Some e \<Rightarrow> [Error e, Info make_sure_message])"
    using assms False by (rule page_nonempty)
  have "Warning no_data_message \<notin> set (dashboard_page DATE td mean st inp)"
    unfolding page
    using head_elements [of "Warning no_data_message" stats alerts_df]
      charts_section_elements [of "Warning no_data_message" td mean "sort_key log_id df"]
    by (auto split: option.splits)
  with False show ?thesis by simp
qed

theorem empty_filtered_sequence_witness:
  "dashboard_logs iso_date (Some example_db) strict_inputs = Inr []
   \<and> Warning no_data_message
        \<in> set (dashboard_page iso_date (Some :: string \<Rightarrow> string option) exact_mean (Some example_db) strict_inputs)
   \<and> list_all (\<lambda>e. \<not> is_data_view e \<and> \<not> is_error e)
        (dashboard_page iso_date (Some :: string \<Rightarrow> string option) exact_mean (Some example_db) strict_inputs)"
proof -
  from example_statistics obtain stats where s: "get_statistics (Some example_db) = Inr stats" ..
  note th = empty_filtered_sequence [OF s example_alerts example_logs_strict, of Some exact_mean]
  show ?thesis
    using example_logs_strict th [THEN conjunct1, THEN mp, OF refl, THEN conjunct2]
      th [THEN conjunct2, THEN iffD2, OF refl]
    by (intro conjI)
qed

text \<open>
  C6. When the filtered sequence \<open>df\<close> (already in descending order of id) is not empty,
  the one log table on the page is the first \<open>num_records\<close> rows of \<open>df\<close>, each with
  cpu, memory and disk rendered to one decimal and suffixed \<^verbatim>\<open>%\<close>, and ping_ms
  rendered to one decimal and suffixed \<^verbatim>\<open>ms\<close> when it is positive and as \<^verbatim>\<open>N/A\<close>
  when it is zero. A one-decimal rendering is a sign, the decimal digits of a natural
  number, a point and one digit, and is within 0.05 of the value.
\<close>

theorem formatted_table:
  assumes "get_statistics st = Inr stats" and "get_alerts_log st = Inr alerts_df"
    and "dashboard_logs DATE st inp = Inr df" and "df \<noteq> []"
  shows "LogTable (map format_row (take (num_records inp) df)) \<in> set (dashboard_page DATE td mean st inp)
         \<and> (\<forall>t. LogTable t \<in> set (dashboard_page DATE td mean st inp)
                \<longrightarrow> t = map format_row (take (num_records inp) df))
         \<and> sorted_wrt (\<lambda>a b. log_id b \<le> log_id a) df
         \<and> (\<forall>r. d_cpu (format_row r) = format_f 1 (cpu r) @ ''%''
                \<and> d_memory (format_row r) = format_f 1 (memory r) @ ''%''
                \<and> d_disk (format_row r) = format_f 1 (disk r) @ ''%''
                \<and> (0 < ping_ms r \<longrightarrow> d_ping_ms (format_row r) = format_f 1 (ping_ms r) @ ''ms'')
                \<and> (ping_ms r = 0 \<longrightarrow> d_ping_ms (format_row r) = ''N/A''))
         \<and> (\<forall>x. \<exists>n d. d < 10
                \<and> format_f 1 x = (if x < 0 then ''-'' else '''') @ str_nat n @ ''.'' @ [digit_char d]
                \<and> \<bar>\<bar>x\<bar> - (real n + real d / 10)\<bar> \<le> 1/20)"
proof -
  let ?cs = "charts_section td mean (sort_key log_id df)"
  let ?page = "dashboard_page DATE td mean st inp"
  let ?tbl = "map format_row (take (num_records inp) df)"
  have page: "?page =
           (stats_metrics stats @ alerts_section stats alerts_df) @
           Info (showing_message (num_records inp) (length df) (log_count stats)) #
           LogTable ?tbl #
           fst ?cs @ (case snd ?cs of None \<Rightarrow> [] | Some e \<Rightarrow> [Error e, Info make_sure_message])"
    using assms by (rule page_nonempty)
  have shown: "LogTable ?tbl \<in> set ?page"
    unfolding page by simp
  have only: "t = ?tbl" if "LogTable t \<in> set ?page" for t
    using that unfolding page
    using head_elements [of "LogTable t" stats alerts_df]
      charts_section_elements [of "LogTable t" td mean "sort_key log_id df"]
    by (auto split: option.splits)
  have srt: "sorted_wrt (\<lambda>a b. log_id b \<le> log_id a) df"
    using assms(3) by (rule dashboard_logs_sorted)
  from shown only srt format_row_fields format_f_one_decimal show ?thesis
    by blast
qed

theorem formatted_table_witness:
  "dashboard_logs iso_date (Some example_db) example_inputs = Inr [row4, row3, row2, row1]
   \<and> LogTable [\<lparr>d_id = 4, d_timestamp = ''2024-11-09 10:00:30'', d_cpu = ''85.0%'',
                  d_memory = ''50.0%'', d_disk = ''60.0%'', d_ping_status = ''UP'',
                  d_ping_ms = ''8.0ms''\<rparr>,
                \<lparr>d_id = 3, d_timestamp = ''2024-11-04 10:00:20'', d_cpu = ''80.0%'',
                  d_memory = ''90.0%'', d_disk = ''60.0%'', d_ping_status = ''DOWN'',
                  d_ping_ms = ''N/A''\<rparr>]
        \<in> set (dashboard_page iso_date (Some :: string \<Rightarrow> string option) exact_mean (Some example_db) example_inputs)"
proof -
  from example_statistics obtain stats where s: "get_statistics (Some example_db) = Inr stats" ..
  have ne: "[row4, row3, row2, row1] \<noteq> []" by simp
  have n: "num_records example_inputs = 2"
    by (simp add: example_inputs_def)
  have f4: "format_row row4 =
      \<lparr>d_id = 4, d_timestamp = ''2024-11-09 10:00:30'', d_cpu = ''85.0%'',
        d_memory = ''50.0%'', d_disk = ''60.0%'', d_ping_status = ''UP'', d_ping_ms = ''8.0ms''\<rparr>"
    by (simp add: format_row_def row4_def format_f_def round_half_even_def str_nat.simps
          digit_char_def zfill_def)
  have f3: "format_row row3 =
      \<lparr>d_id = 3, d_timestamp = ''2024-11-04 10:00:20'', d_cpu = ''80.0%'',
        d_memory = ''90.0%'', d_disk = ''60.0%'', d_ping_status = ''DOWN'', d_ping_ms = ''N/A''\<rparr>"
    by (simp add: format_row_def row3_def format_f_def round_half_even_def str_nat.simps
          digit_char_def zfill_def)
  have t: "map format_row (take 2 [row4, row3, row2, row1]) = [format_row row4, format_row row3]"
    by (simp add: numeral_2_eq_2)
  show ?thesis
    using formatted_table [OF s example_alerts example_logs_all ne, of Some exact_mean] example_logs_all
    unfolding n t f4 f3 by (simp del: set_append)
qed

text \<open>
  C7. When the filtered sequence is not empty and every timestamp parses, the resource
  chart is the projection to (timestamp, cpu, memory, disk) of all filtered rows in ascending
  order of id, and the latency chart is the projection to (timestamp, ping_ms) of exactly
  the rows with positive ping_ms, in the same order; when no row has a positive ping_ms
  there is no latency chart and a message says so.
\<close>

theorem time_series:
  assumes "get_statistics st = Inr stats" and "get_alerts_log st = Inr alerts_df"
    and "dashboard_logs DATE st inp = Inr df" and "df \<noteq> []"
    and "\<forall>r \<in> set df. td (timestamp r) = Some (dt r)"
  shows "ResourceChart (map (\<lambda>r. (dt r, cpu r, memory r, disk r)) (sort_key log_id df))
           \<in> set (dashboard_page DATE td mean st inp)
         \<and> (filter (\<lambda>r. 0 < ping_ms r) df \<noteq> [] \<longrightarrow>
              PingChart (map (\<lambda>r. (dt r, ping_ms r)) (filter (\<lambda>r. 0 < ping_ms r) (sort_key log_id df)))
                \<in> set (dashboard_page DATE td mean st inp))
         \<and> (filter (\<lambda>r. 0 < ping_ms r) df = [] \<longrightarrow>
              Info no_ping_message \<in> set (dashboard_page DATE td mean st inp)
              \<and> (\<forall>c. PingChart c \<notin> set (dashboard_page DATE td mean st inp)))
         \<and> sorted (map log_id (sort_key log_id df))
         \<and> mset (sort_key log_id df) = mset df"
proof -
  let ?chart_df = "sort_key log_id df"
  let ?page = "dashboard_page DATE td mean st inp"
  let ?pos = "\<lambda>r. 0 < ping_ms r"
  let ?head = "stats_metrics stats @ alerts_section stats alerts_df"
  note page = page_parsed [OF assms]
  have res: "ResourceChart (map (\<lambda>r. (dt r, cpu r, memory r, disk r)) ?chart_df) \<in> set ?page"
    unfolding page by simp
  have some: "filter ?pos df \<noteq> [] \<longrightarrow>
              PingChart (map (\<lambda>r. (dt r, ping_ms r)) (filter ?pos ?chart_df)) \<in> set ?page"
    unfolding page by (simp add: filter_sort_key_Nil)
  have none: "Info no_ping_message \<in> set ?page \<and> (\<forall>c. PingChart c \<notin> set ?page)"
    if "filter ?pos df = []"
  proof -
    from that have e: "filter ?pos ?chart_df = []"
      by (simp only: filter_sort_key_Nil)
    have "\<forall>c. PingChart c \<notin> set ?head"
      using head_elements [of _ stats alerts_df] by blast
    then show ?thesis
      unfolding page by (auto simp: e)
  qed
  from res some none show ?thesis
    by simp
qed

theorem time_series_witness:
  "dashboard_logs iso_date (Some example_db) example_inputs = Inr [row4, row3, row2, row1]
   \<and> ResourceChart (map (\<lambda>r. (timestamp r, cpu r, memory r, disk r)) [row1, row2, row3, row4])
        \<in> set (dashboard_page iso_date Some exact_mean (Some example_db) example_inputs)
   \<and> PingChart (map (\<lambda>r. (timestamp r, ping_ms r)) [row1, row2, row4])
        \<in> set (dashboard_page iso_date Some exact_mean (Some example_db) example_inputs)"
proof -
  from example_statistics obtain stats where s: "get_statistics (Some example_db) = Inr stats" ..
  have ne: "[row4, row3, row2, row1] \<noteq> []" by simp
  have p: "\<forall>r \<in> set [row4, row3, row2, row1]. Some (timestamp r) = Some (timestamp r)" by simp
  have pos: "filter (\<lambda>r. 0 < ping_ms r) [row1, row2, row3, row4] = [row1, row2, row4]"
    by (simp add: row1_def row2_def row3_def row4_def)
  have pos': "filter (\<lambda>r. 0 < ping_ms r) [row4, row3, row2, row1] \<noteq> []"
    by (simp add: row4_def)
  show ?thesis
    using time_series [OF s example_alerts example_logs_all ne p, of exact_mean] example_logs_all pos'
    unfolding example_chart_df pos by (simp del: set_append)
qed

text \<open>
  C8. The ping-status summary of a sequence has one entry for each distinct ping status
  in it, with the number of rows of that status and that number as a percentage of the
  length of the sequence: the double \<^verbatim>\<open>count/len*100\<close>, formatted to one decimal. For
  statuses UP, UP, DOWN it is UP 2 (66.7%) and DOWN 1 (33.3%). On the page the summary is
  taken over the filtered rows, so counts and percentages refer to the filtered sequence
  and its length.
\<close>

theorem ping_status_frequency_table:
  "set (map fst (ping_summary chart_df)) = set (map ping_status chart_df)
   \<and> distinct (map fst (ping_summary chart_df))
   \<and> (\<forall>(s, c, p) \<in> set (ping_summary chart_df).
         c = length (filter (\<lambda>r. ping_status r = s) chart_df)
         \<and> p = format_f 1 (fmul (fdiv (real c) (real (length chart_df))) 100) @ ''%'')
   \<and> (map ping_status chart_df = [''UP'', ''UP'', ''DOWN''] \<longrightarrow>
         ping_summary chart_df = [(''UP'', 2, ''66.7%''), (''DOWN'', 1, ''33.3%'')])
   \<and> (get_statistics st = Inr stats \<and> get_alerts_log st = Inr alerts_df
        \<and> dashboard_logs DATE st inp = Inr df \<and> df \<noteq> []
        \<and> (\<forall>r \<in> set df. td (timestamp r) = Some (dt r)) \<longrightarrow>
         (\<exists>tbl. PingSummary tbl \<in> set (dashboard_page DATE td mean st inp)
            \<and> set (map fst tbl) = set (map ping_status df)
            \<and> (\<forall>(s, c, p) \<in> set tbl.
                  c = length (filter (\<lambda>r. ping_status r = s) df)
                  \<and> p = format_f 1 (fmul (fdiv (real c) (real (length df))) 100) @ ''%'')))"
proof -
  have keys: "set (map fst (ping_summary xs)) = set (map ping_status xs)" for xs
    unfolding map_fst_ping_summary by (simp add: set_value_counts image_image)
  have dist: "distinct (map fst (ping_summary chart_df))"
    unfolding map_fst_ping_summary by (rule distinct_value_counts)
  have entries: "\<forall>(s, c, p) \<in> set (ping_summary xs).
         c = length (filter (\<lambda>r. ping_status r = s) xs)
         \<and> p = format_f 1 (fmul (fdiv (real c) (real (length xs))) 100) @ ''%''" for xs
    using ping_summary_entry [of _ _ _ xs] by fast
  have scen: "map ping_status chart_df = [''UP'', ''UP'', ''DOWN''] \<longrightarrow>
         ping_summary chart_df = [(''UP'', 2, ''66.7%''), (''DOWN'', 1, ''33.3%'')]"
    by (rule impI) (rule ping_summary_scenario)
  have page: "get_statistics st = Inr stats \<and> get_alerts_log st = Inr alerts_df
        \<and> dashboard_logs DATE st inp = Inr df \<and> df \<noteq> []
        \<and> (\<forall>r \<in> set df. td (timestamp r) = Some (dt r)) \<longrightarrow>
         (\<exists>tbl. PingSummary tbl \<in> set (dashboard_page DATE td mean st inp)
            \<and> set (map fst tbl) = set (map ping_status df)
            \<and> (\<forall>(s, c, p) \<in> set tbl.
                  c = length (filter (\<lambda>r. ping_status r = s) df)
                  \<and> p = format_f 1 (fmul (fdiv (real c) (real (length df))) 100) @ ''%''))"
  proof (rule impI)
    assume h: "get_statistics st = Inr stats \<and> get_alerts_log st = Inr alerts_df
        \<and> dashboard_logs DATE st inp = Inr df \<and> df \<noteq> []
        \<and> (\<forall>r \<in> set df. td (timestamp r) = Some (dt r))"
    let ?tbl = "ping_summary (sort_key log_id df)"
    have "PingSummary ?tbl \<in> set (dashboard_page DATE td mean st inp)"
      using page_parsed [of st stats alerts_df DATE inp df td dt mean] h by simp
    moreover have "set (map fst ?tbl) = set (map ping_status df)"
      using keys [of "sort_key log_id df"] by simp
    moreover have "\<forall>(s, c, p) \<in> set ?tbl.
                  c = length (filter (\<lambda>r. ping_status r = s) df)
                  \<and> p = format_f 1 (fmul (fdiv (real c) (real (length df))) 100) @ ''%''"
      using entries [of "sort_key log_id df"] by (simp add: filter_sort)
    ultimately show "\<exists>tbl. PingSummary tbl \<in> set (dashboard_page DATE td mean st inp)
            \<and> set (map fst tbl) = set (map ping_status df)
            \<and> (\<forall>(s, c, p) \<in> set tbl.
                  c = length (filter (\<lambda>r. ping_status r = s) df)
                  \<and> p = format_f 1 (fmul (fdiv (real c) (real (length df))) 100) @ ''%'')"
      by (intro exI [of _ ?tbl] conjI)
  qed
  show ?thesis
    by (intro conjI keys dist entries scen page)
qed

theorem ping_status_frequency_table_witness:
  "map ping_status [row1, row2, row3] = [''UP'', ''UP'', ''DOWN'']
   \<and> ping_summary [row1, row2, row3] = [(''UP'', 2, ''66.7%''), (''DOWN'', 1, ''33.3%'')]"
proof -
  have m: "map ping_status [row1, row2, row3] = [''UP'', ''UP'', ''DOWN'']"
    by (simp add: row1_def row2_def row3_def)
  show ?thesis
    using m ping_status_frequency_table [of "[row1, row2, row3]", THEN conjunct2, THEN conjunct2,
        THEN conjunct2, THEN conjunct1, THEN mp, OF m]
    by (intro conjI)
qed

text \<open>
  C9, as amended. When the store cannot be opened both accessors fail, and when the table
  an accessor reads is missing that accessor fails, with the exception the code raises
  there (\<^verbatim>\<open>sqlite3.OperationalError\<close> from connect, \<^verbatim>\<open>pandas.errors.DatabaseError\<close>
  from the query). On a store whose tables, where present, have the expected columns, an
  accessor fails in no other case: the absence of the table it does not read leaves it
  working. Whenever the store cannot be opened or either table is missing, the page is the
  error element followed by the hint to check \<^verbatim>\<open>log.db\<close>, and the sidebar shows
  \<^verbatim>\<open>Database not connected\<close>: the failure is turned into messages and the render
  returns.
\<close>

theorem store_unavailable_is_caught:
  fixes td :: "string \<Rightarrow> 't option"
  shows "(get_system_logs DATE None pf dfl ct = Inl (OperationalError UnableToOpen)
      \<and> get_alerts_log None = Inl (OperationalError UnableToOpen))
   \<and> (system_log db = None \<longrightarrow>
         get_system_logs DATE (Some db) pf dfl ct = Inl (DatabaseError (NoSuchTable ''system_log'')))
   \<and> (alerts_log db = None \<longrightarrow>
         get_alerts_log (Some db) = Inl (DatabaseError (NoSuchTable ''alerts_log'')))
   \<and> ((\<exists>e. get_system_logs DATE st pf dfl ct = Inl e) \<longleftrightarrow>
         st = None \<or> (\<exists>d. st = Some d \<and> system_log d = None))
   \<and> ((\<exists>e. get_alerts_log st = Inl e) \<longleftrightarrow>
         st = None \<or> (\<exists>d. st = Some d \<and> alerts_log d = None))
   \<and> (st = None \<or> st = Some db \<and> (system_log db = None \<or> alerts_log db = None) \<longrightarrow>
         (\<exists>e. dashboard_page DATE td mean st inp = [Error e, Info make_sure_message])
         \<and> (sidebar_database st :: 't element list) = [Warning ''Database not connected''])"
proof -
  have a: "get_system_logs DATE None pf dfl ct = Inl (OperationalError UnableToOpen)"
    by (simp add: get_system_logs_def connect_def)
  have b: "get_alerts_log None = Inl (OperationalError UnableToOpen)"
    by (simp add: get_alerts_log_def connect_def)
  have c: "system_log db = None \<longrightarrow>
         get_system_logs DATE (Some db) pf dfl ct = Inl (DatabaseError (NoSuchTable ''system_log''))"
    by (simp add: get_system_logs_def connect_def Let_def)
  have d: "alerts_log db = None \<longrightarrow>
         get_alerts_log (Some db) = Inl (DatabaseError (NoSuchTable ''alerts_log''))"
    by (simp add: get_alerts_log_def connect_def)
  have logs: "(\<exists>e. get_system_logs DATE st pf dfl ct = Inl e) \<longleftrightarrow>
         st = None \<or> (\<exists>d. st = Some d \<and> system_log d = None)"
    by (cases st) (auto simp: get_system_logs_def connect_def Let_def split: option.splits)
  have alerts: "(\<exists>e. get_alerts_log st = Inl e) \<longleftrightarrow>
         st = None \<or> (\<exists>d. st = Some d \<and> alerts_log d = None)"
    by (cases st) (auto simp: get_alerts_log_def connect_def split: option.splits)
  have e: "st = None \<or> st = Some db \<and> (system_log db = None \<or> alerts_log db = None) \<longrightarrow>
         (\<exists>e. dashboard_page DATE td mean st inp = [Error e, Info make_sure_message])
         \<and> (sidebar_database st :: 't element list) = [Warning ''Database not connected'']"
  proof (rule impI)
    assume "st = None \<or> st = Some db \<and> (system_log db = None \<or> alerts_log db = None)"
    then obtain e where "get_statistics st = Inl e"
      using get_statistics_unavailable by blast
    then show "(\<exists>e. dashboard_page DATE td mean st inp = [Error e, Info make_sure_message])
         \<and> (sidebar_database st :: 't element list) = [Warning ''Database not connected'']"
      by (simp add: dashboard_page_unavailable sidebar_database_def)
  qed
  show ?thesis
    by (intro conjI a b c d logs alerts e)
qed

theorem store_unavailable_is_caught_witness:
  "dashboard_page iso_date (Some :: string \<Rightarrow> string option) exact_mean None example_inputs =
     [Error (OperationalError UnableToOpen), Info make_sure_message]
   \<and> (sidebar_database None :: string element list) = [Warning ''Database not connected'']
   \<and> system_log \<lparr>system_log = None, alerts_log = Some []\<rparr> = None
   \<and> get_system_logs iso_date (Some \<lparr>system_log = None, alerts_log = Some []\<rparr>) None None None =
       Inl (DatabaseError (NoSuchTable ''system_log''))"
proof -
  have "get_statistics None = Inl (OperationalError UnableToOpen)"
    by (simp add: get_statistics_def connect_def)
  then have "dashboard_page iso_date (Some :: string \<Rightarrow> string option) exact_mean None example_inputs =
     [Error (OperationalError UnableToOpen), Info make_sure_message]"
    by (rule dashboard_page_unavailable)
  then show ?thesis
    using store_unavailable_is_caught
      [where DATE = iso_date and pf = None and dfl = None and ct = None
         and db = "\<lparr>system_log = None, alerts_log = Some []\<rparr>" and st = None
         and td = "Some :: string \<Rightarrow> string option" and mean = exact_mean and inp = example_inputs]
    by simp
qed

text \<open>
  The claim as first stated has both accessors fail whenever the expected schema, two
  tables, is missing or malformed. On a store that holds \<^verbatim>\<open>system_log\<close> but no
  \<^verbatim>\<open>alerts_log\<close>, \<^verbatim>\<open>get_system_logs\<close> does not fail: it returns the rows.
\<close>

theorem get_system_logs_partial_schema_counterexample:
  "alerts_log partial_db = None
   \<and> get_system_logs iso_date (Some partial_db) None None None = Inr [row1]"
  by (simp add: get_system_logs_def connect_def select_system_log_def where_clause_def
        partial_db_def)

end
